theory Spec2Isabelle
  imports Complex_Main "HOL-Library.Char_ord" "HOL-Library.List_Lexorder"
begin

section \<open>JavaScript values\<close>

text \<open>
  The route module \<^verbatim>\<open>src/server/routes/books.js\<close> works on JavaScript values. A number
  is an IEEE double: not-a-number, an infinity, or a finite value, kept here as the
  rational it denotes (negative zero is the rational 0: it differs from zero in none
  of the operations the handlers use).
\<close>

datatype jsnum = NaN | NegInf | Fin rat | PosInf

text \<open>
  A property of a book or of a request body holds a primitive value. Array- and
  object-valued properties are outside the model.
\<close>

datatype jsval = JUndefined | JNull | JBool bool | JNum jsnum | JStr string

text \<open>An object maps property names to values; a property that is absent reads as undefined.\<close>

type_synonym obj = "string \<rightharpoonup> jsval"

definition getProp :: "obj \<Rightarrow> string \<Rightarrow> jsval" where
  "getProp b k = (case b k of None \<Rightarrow> JUndefined | Some v \<Rightarrow> v)"

text \<open>ToBoolean: what \<^verbatim>\<open>if (v)\<close>, \<^verbatim>\<open>!v\<close> and \<^verbatim>\<open>v || w\<close> test.\<close>

fun truthy :: "jsval \<Rightarrow> bool" where
  "truthy JUndefined = False"
| "truthy JNull = False"
| "truthy (JBool b) = b"
| "truthy (JNum NaN) = False"
| "truthy (JNum (Fin q)) = (q \<noteq> 0)"
| "truthy (JNum _) = True"
| "truthy (JStr s) = (s \<noteq> [])"

text \<open>\<^verbatim>\<open>v || w\<close>\<close>

definition orElse :: "jsval \<Rightarrow> jsval \<Rightarrow> jsval" where
  "orElse v w = (if truthy v then v else w)"

text \<open>\<^verbatim>\<open>v === n\<close> for a number \<open>n\<close>: only an equal number, and NaN equals nothing.\<close>

fun strictEqNum :: "jsval \<Rightarrow> jsnum \<Rightarrow> bool" where
  "strictEqNum (JNum a) n = (a \<noteq> NaN \<and> a = n)"
| "strictEqNum _ n = False"

text \<open>\<^verbatim>\<open>a >= b\<close> and \<^verbatim>\<open>a <= b\<close> on numbers: false whenever an operand is NaN.\<close>

fun numLe :: "jsnum \<Rightarrow> jsnum \<Rightarrow> bool" where
  "numLe NaN _ = False"
| "numLe _ NaN = False"
| "numLe NegInf _ = True"
| "numLe _ PosInf = True"
| "numLe (Fin a) (Fin b) = (a \<le> b)"
| "numLe _ _ = False"

definition numGe :: "jsnum \<Rightarrow> jsnum \<Rightarrow> bool" where
  "numGe a b = numLe b a"

section \<open>The host: built-ins the module calls\<close>

text \<open>
  The conversions between strings and floating-point numbers and the clock belong to
  the JavaScript runtime. The handlers take them as a parameter, so every theorem
  below holds whatever they return.
\<close>

record host =
  parseFloat :: "string \<Rightarrow> jsnum"
  stringToNumber :: "string \<Rightarrow> jsnum"
  numberToString :: "jsnum \<Rightarrow> string"
  currentYear :: int
  isoNow :: string

text \<open>ToString and ToNumber on primitives.\<close>

fun toStr :: "host \<Rightarrow> jsval \<Rightarrow> string" where
  "toStr h JUndefined = ''undefined''"
| "toStr h JNull = ''null''"
| "toStr h (JBool b) = (if b then ''true'' else ''false'')"
| "toStr h (JNum n) = numberToString h n"
| "toStr h (JStr s) = s"

fun toNumber :: "host \<Rightarrow> jsval \<Rightarrow> jsnum" where
  "toNumber h JUndefined = NaN"
| "toNumber h JNull = Fin 0"
| "toNumber h (JBool b) = (if b then Fin 1 else Fin 0)"
| "toNumber h (JNum n) = n"
| "toNumber h (JStr s) = stringToNumber h s"

subsection \<open>Strings\<close>

text \<open>
  A string is a list of characters, each a UTF-16 code unit below 256 (U+0000 to
  U+00FF); text with other code units is outside the model. In this range
  \<^verbatim>\<open>toLowerCase\<close> lowers the letters A to Z and the capitals U+00C0 to U+00DE other than
  the multiplication sign U+00D7, each to the code unit 32 above it, and leaves every
  other character as it is.
\<close>

definition upperCaseLetters :: string where
  "upperCaseLetters =
     ''ABCDEFGHIJKLMNOPQRSTUVWXYZ''
     @ [CHR 0xC0, CHR 0xC1, CHR 0xC2, CHR 0xC3, CHR 0xC4, CHR 0xC5, CHR 0xC6, CHR 0xC7,
        CHR 0xC8, CHR 0xC9, CHR 0xCA, CHR 0xCB, CHR 0xCC, CHR 0xCD, CHR 0xCE, CHR 0xCF,
        CHR 0xD0, CHR 0xD1, CHR 0xD2, CHR 0xD3, CHR 0xD4, CHR 0xD5, CHR 0xD6, CHR 0xD8,
        CHR 0xD9, CHR 0xDA, CHR 0xDB, CHR 0xDC, CHR 0xDD, CHR 0xDE]"

definition lowerCaseLetters :: string where
  "lowerCaseLetters =
     ''abcdefghijklmnopqrstuvwxyz''
     @ [CHR 0xE0, CHR 0xE1, CHR 0xE2, CHR 0xE3, CHR 0xE4, CHR 0xE5, CHR 0xE6, CHR 0xE7,
        CHR 0xE8, CHR 0xE9, CHR 0xEA, CHR 0xEB, CHR 0xEC, CHR 0xED, CHR 0xEE, CHR 0xEF,
        CHR 0xF0, CHR 0xF1, CHR 0xF2, CHR 0xF3, CHR 0xF4, CHR 0xF5, CHR 0xF6, CHR 0xF8,
        CHR 0xF9, CHR 0xFA, CHR 0xFB, CHR 0xFC, CHR 0xFD, CHR 0xFE]"

definition lowerChar :: "char \<Rightarrow> char" where
  "lowerChar c =
     (case map_of (zip upperCaseLetters lowerCaseLetters) c of None \<Rightarrow> c | Some d \<Rightarrow> d)"

definition toLowerCase :: "string \<Rightarrow> string" where
  "toLowerCase s = map lowerChar s"

fun startsWith :: "string \<Rightarrow> string \<Rightarrow> bool" where
  "startsWith s [] = True"
| "startsWith [] (c # t) = False"
| "startsWith (d # s) (c # t) = (d = c \<and> startsWith s t)"

text \<open>\<^verbatim>\<open>s.includes(t)\<close>: \<open>t\<close> occurs in \<open>s\<close> as a contiguous run.\<close>

fun includes_str :: "string \<Rightarrow> string \<Rightarrow> bool" where
  "includes_str [] t = (t = [])"
| "includes_str (d # s) t = (startsWith (d # s) t \<or> includes_str s t)"

subsection \<open>parseInt\<close>

text \<open>
  \<^verbatim>\<open>parseInt(s)\<close> with no radix: leading white space is dropped, then an optional sign,
  then \<^verbatim>\<open>0x\<close> or \<^verbatim>\<open>0X\<close> selects radix 16, and the longest run of digits of the radix is
  read; with no digit the result is NaN. The white space below U+0100 is the tab, the
  line feed, the vertical tab, the form feed, the carriage return, the space and the
  no-break space U+00A0.
\<close>

definition isWhiteSpace :: "char \<Rightarrow> bool" where
  "isWhiteSpace c =
     (c \<in> set [CHR 0x09, CHR 0x0A, CHR 0x0B, CHR 0x0C, CHR 0x0D, CHR '' '', CHR 0xA0])"

definition digitValue :: "char \<Rightarrow> nat option" where
  "digitValue c =
     map_of (zip ''0123456789abcdef'' [0, 1, 2, 3, 4, 5, 6, 7, 8, 9, 10, 11, 12, 13, 14, 15]
           @ zip ''ABCDEF'' [10, 11, 12, 13, 14, 15]) c"

definition isDigitOf :: "nat \<Rightarrow> char \<Rightarrow> bool" where
  "isDigitOf radix c = (case digitValue c of None \<Rightarrow> False | Some d \<Rightarrow> d < radix)"

definition digitsValue :: "nat \<Rightarrow> string \<Rightarrow> nat" where
  "digitsValue radix z = foldl (\<lambda>a c. a * radix + (case digitValue c of None \<Rightarrow> 0 | Some d \<Rightarrow> d)) 0 z"

text \<open>
  The integer read is converted to a double: it is kept as it is below \<open>2\<^sup>5\<^sup>3\<close>, above
  that it is rounded to 53 significant bits, a tie going to the even neighbour, and a
  result of \<open>2\<^sup>1\<^sup>0\<^sup>2\<^sup>4\<close> or more is Infinity.
\<close>

fun bitLength :: "nat \<Rightarrow> nat" where
  "bitLength n = (if n = 0 then 0 else Suc (bitLength (n div 2)))"

definition roundToDouble :: "nat \<Rightarrow> jsnum" where
  "roundToDouble n =
     (if n < 9007199254740992 then Fin (of_nat n)
      else (let e = bitLength n - 53;
                q = n div 2 ^ e;
                r = n mod 2 ^ e;
                m = (if 2 ^ e < 2 * r \<or> (2 * r = 2 ^ e \<and> odd q) then q + 1 else q)
            in if 2 ^ 1024 \<le> m * 2 ^ e then PosInf else Fin (of_nat (m * 2 ^ e))))"

fun negateNum :: "jsnum \<Rightarrow> jsnum" where
  "negateNum NaN = NaN"
| "negateNum NegInf = PosInf"
| "negateNum (Fin q) = Fin (- q)"
| "negateNum PosInf = NegInf"

definition parseInt :: "string \<Rightarrow> jsnum" where
  "parseInt str =
     (let s = dropWhile isWhiteSpace str;
          negative = (s \<noteq> [] \<and> hd s = CHR ''-'');
          s1 = (if s \<noteq> [] \<and> (hd s = CHR ''+'' \<or> hd s = CHR ''-'') then tl s else s);
          hex = (startsWith s1 ''0x'' \<or> startsWith s1 ''0X'');
          radix = (if hex then 16 else 10);
          s2 = (if hex then drop 2 s1 else s1);
          z = takeWhile (isDigitOf radix) s2
      in if z = [] then NaN
         else if negative then negateNum (roundToDouble (digitsValue radix z))
         else roundToDouble (digitsValue radix z))"

section \<open>The collection, requests and responses\<close>

text \<open>
  \<^verbatim>\<open>books\<close> is the module's shared array of book objects. Every handler is a function of
  the request and of the array that returns the response and the array it leaves
  behind. The two middlewares in front of the mutating routes are external; a handler
  below is the body that runs once they have let the request through.
\<close>

type_synonym store = "obj list"

text \<open>
  \<^verbatim>\<open>req.query\<close>: each parameter is absent or a string. (A repeated or bracketed parameter,
  which the query parser turns into an array or an object, is outside the model.)
\<close>

record query =
  search :: "string option"
  author :: "string option"
  genre :: "string option"
  minPrice :: "string option"
  maxPrice :: "string option"
  year :: "string option"
  limit :: "string option"

text \<open>
  The JSON bodies the handlers send. A 500 body also carries the text of the caught
  error, which is left out.
\<close>

datatype payload =
    BookList "obj list" nat nat
  | OneBook obj
  | Names "jsval list"
  | Message string
  | MessageBook string obj
  | Failure string

text \<open>A response: the status code and the body.\<close>

type_synonym response = "nat \<times> payload"

section \<open>Array built-ins\<close>

text \<open>
  \<^verbatim>\<open>xs.filter(p)\<close> where the callback \<open>p\<close> may throw: \<open>None\<close> is the exception, which
  leaves the \<^verbatim>\<open>try\<close> block at once.
\<close>

fun filterE :: "('a \<Rightarrow> bool option) \<Rightarrow> 'a list \<Rightarrow> 'a list option" where
  "filterE p [] = Some []"
| "filterE p (x # xs) =
     (case p x of
        None \<Rightarrow> None
      | Some keep \<Rightarrow>
          (case filterE p xs of
             None \<Rightarrow> None
           | Some ys \<Rightarrow> Some (if keep then x # ys else ys)))"

text \<open>ToIntegerOrInfinity on a finite number: truncation towards zero.\<close>

definition toInteger :: "rat \<Rightarrow> int" where
  "toInteger q = (if 0 \<le> q then \<lfloor>q\<rfloor> else \<lceil>q\<rceil>)"

text \<open>
  \<^verbatim>\<open>xs.slice(0, end)\<close>: NaN counts as 0, a negative end counts from the end of the array,
  and the end is clamped to the array.
\<close>

fun slice0 :: "'a list \<Rightarrow> jsnum \<Rightarrow> 'a list" where
  "slice0 xs NaN = []"
| "slice0 xs NegInf = []"
| "slice0 xs PosInf = xs"
| "slice0 xs (Fin q) =
     (let k = toInteger q
      in if k < 0 then take (nat (int (length xs) + k)) xs else take (nat k) xs)"

text \<open>\<^verbatim>\<open>xs.findIndex(p)\<close>: the first index where \<open>p\<close> holds; \<open>None\<close> is JavaScript's \<open>-1\<close>.\<close>

fun findIndex :: "('a \<Rightarrow> bool) \<Rightarrow> 'a list \<Rightarrow> nat option" where
  "findIndex p [] = None"
| "findIndex p (x # xs) = (if p x then Some 0 else map_option Suc (findIndex p xs))"

text \<open>\<^verbatim>\<open>[...new Set(xs)]\<close>: the values in the order of their first occurrence.\<close>

definition newSet :: "'a list \<Rightarrow> 'a list" where
  "newSet xs = fold (\<lambda>x seen. if x \<in> set seen then seen else seen @ [x]) xs []"

text \<open>
  \<^verbatim>\<open>xs.sort()\<close> with the default comparison: undefined values go last, the others are
  ordered by their strings, compared character by character; the sort is stable.
\<close>

definition sortDefault :: "host \<Rightarrow> jsval list \<Rightarrow> jsval list" where
  "sortDefault h xs =
     sort_key (toStr h) (filter (\<lambda>v. v \<noteq> JUndefined) xs) @ filter (\<lambda>v. v = JUndefined) xs"

section \<open>The read handlers\<close>

subsection \<open>GET /\<close>

text \<open>\<^verbatim>\<open>v.toLowerCase()\<close>: a TypeError unless \<open>v\<close> is a string.\<close>

fun lowerOf :: "jsval \<Rightarrow> string option" where
  "lowerOf (JStr s) = Some (toLowerCase s)"
| "lowerOf _ = None"

text \<open>\<^verbatim>\<open>book.k.toLowerCase().includes(t)\<close>\<close>

definition fieldIncludes :: "obj \<Rightarrow> string \<Rightarrow> string \<Rightarrow> bool option" where
  "fieldIncludes b k t = map_option (\<lambda>s. includes_str s t) (lowerOf (getProp b k))"

text \<open>\<^verbatim>\<open>a || b\<close> on conditions that may throw: \<open>b\<close> is evaluated only when \<open>a\<close> is false.\<close>

definition orE :: "bool option \<Rightarrow> bool option \<Rightarrow> bool option" where
  "orE a b = (case a of None \<Rightarrow> None | Some x \<Rightarrow> if x then Some True else b)"

definition searchFilter :: "string \<Rightarrow> obj \<Rightarrow> bool option" where
  "searchFilter s b =
     (let searchTerm = toLowerCase s
      in orE (fieldIncludes b ''title'' searchTerm)
          (orE (fieldIncludes b ''author'' searchTerm)
            (orE (fieldIncludes b ''description'' searchTerm)
                 (fieldIncludes b ''genre'' searchTerm))))"

definition authorFilter :: "string \<Rightarrow> obj \<Rightarrow> bool option" where
  "authorFilter a b = fieldIncludes b ''author'' (toLowerCase a)"

definition genreFilter :: "string \<Rightarrow> obj \<Rightarrow> bool option" where
  "genreFilter g b = map_option (\<lambda>s. s = toLowerCase g) (lowerOf (getProp b ''genre''))"

definition minPriceFilter :: "host \<Rightarrow> string \<Rightarrow> obj \<Rightarrow> bool option" where
  "minPriceFilter h m b = Some (numGe (toNumber h (getProp b ''price'')) (parseFloat h m))"

definition maxPriceFilter :: "host \<Rightarrow> string \<Rightarrow> obj \<Rightarrow> bool option" where
  "maxPriceFilter h m b = Some (numLe (toNumber h (getProp b ''price'')) (parseFloat h m))"

definition yearFilter :: "string \<Rightarrow> obj \<Rightarrow> bool option" where
  "yearFilter y b = Some (strictEqNum (getProp b ''publishedYear'') (parseInt y))"

text \<open>
  \<^verbatim>\<open>if (param) { filteredBooks = filteredBooks.filter(p) }\<close>: an absent parameter and the
  empty string are falsy and skip the filter.
\<close>

definition applyFilter ::
  "string option \<Rightarrow> (string \<Rightarrow> obj \<Rightarrow> bool option) \<Rightarrow> obj list \<Rightarrow> obj list option" where
  "applyFilter param p bs =
     (case param of
        None \<Rightarrow> Some bs
      | Some s \<Rightarrow> if s = [] then Some bs else filterE (p s) bs)"

text \<open>The six filters in the order of the source, starting from the copy \<^verbatim>\<open>[...books]\<close>.\<close>

definition filteredBooks :: "host \<Rightarrow> query \<Rightarrow> store \<Rightarrow> obj list option" where
  "filteredBooks h q books =
     Option.bind (applyFilter (search q) searchFilter books) (\<lambda>f1.
     Option.bind (applyFilter (author q) authorFilter f1) (\<lambda>f2.
     Option.bind (applyFilter (genre q) genreFilter f2) (\<lambda>f3.
     Option.bind (applyFilter (minPrice q) (minPriceFilter h) f3) (\<lambda>f4.
     Option.bind (applyFilter (maxPrice q) (maxPriceFilter h) f4) (\<lambda>f5.
     applyFilter (year q) yearFilter f5)))))"

text \<open>
  \<^verbatim>\<open>parseInt(limit)\<close>, where \<^verbatim>\<open>limit\<close> is the number 22 when the parameter is absent
  (\<^verbatim>\<open>parseInt(22)\<close> is 22).
\<close>

definition limitOf :: "query \<Rightarrow> jsnum" where
  "limitOf q = (case limit q of None \<Rightarrow> Fin 22 | Some l \<Rightarrow> parseInt l)"

definition getBooks :: "host \<Rightarrow> query \<Rightarrow> store \<Rightarrow> response \<times> store" where
  "getBooks h q books =
     (case filteredBooks h q books of
        None \<Rightarrow> ((500, Failure ''Failed to fetch books''), books)
      | Some fb \<Rightarrow>
          (let limitedBooks = slice0 fb (limitOf q)
           in ((200, BookList limitedBooks (length fb) (length limitedBooks)), books)))"

subsection \<open>GET /:id\<close>

text \<open>\<^verbatim>\<open>b => b.id === parseInt(req.params.id)\<close>\<close>

definition hasId :: "string \<Rightarrow> obj \<Rightarrow> bool" where
  "hasId idParam b = strictEqNum (getProp b ''id'') (parseInt idParam)"

definition getBook :: "string \<Rightarrow> store \<Rightarrow> response \<times> store" where
  "getBook idParam books =
     (case find (hasId idParam) books of
        None \<Rightarrow> ((404, Message ''Book not found''), books)
      | Some book \<Rightarrow> ((200, OneBook book), books))"

subsection \<open>GET /meta/genres and GET /meta/authors\<close>

definition getGenres :: "host \<Rightarrow> store \<Rightarrow> response \<times> store" where
  "getGenres h books =
     ((200, Names (sortDefault h (newSet (map (\<lambda>book. getProp book ''genre'') books)))), books)"

definition getAuthors :: "host \<Rightarrow> store \<Rightarrow> response \<times> store" where
  "getAuthors h books =
     ((200, Names (sortDefault h (newSet (map (\<lambda>book. getProp book ''author'') books)))), books)"

section \<open>The mutating handlers\<close>

subsection \<open>POST /\<close>

text \<open>
  \<^verbatim>\<open>req.body\<close> is the parsed JSON object. \<^verbatim>\<open>parseInt(v)\<close> and \<^verbatim>\<open>parseFloat(v)\<close> convert
  their argument to a string first.
\<close>

definition newBook :: "host \<Rightarrow> obj \<Rightarrow> store \<Rightarrow> obj" where
  "newBook h body books =
     [''id'' \<mapsto> JNum (Fin (of_nat (length books) + 1)),
      ''title'' \<mapsto> getProp body ''title'',
      ''author'' \<mapsto> getProp body ''author'',
      ''isbn'' \<mapsto> orElse (getProp body ''isbn'') (JStr []),
      ''publishedYear'' \<mapsto>
        orElse (JNum (parseInt (toStr h (getProp body ''publishedYear''))))
               (JNum (Fin (of_int (currentYear h)))),
      ''genre'' \<mapsto> getProp body ''genre'',
      ''price'' \<mapsto> JNum (parseFloat h (toStr h (getProp body ''price''))),
      ''description'' \<mapsto> orElse (getProp body ''description'') (JStr []),
      ''pages'' \<mapsto> orElse (JNum (parseInt (toStr h (getProp body ''pages'')))) (JNum (Fin 0)),
      ''publisher'' \<mapsto> orElse (getProp body ''publisher'') (JStr []),
      ''language'' \<mapsto> orElse (getProp body ''language'') (JStr ''English''),
      ''rating'' \<mapsto> JNum (Fin 0),
      ''stock'' \<mapsto> JNum (Fin 0),
      ''image'' \<mapsto>
        orElse (getProp body ''image'')
          (JStr ''https://images.pexels.com/photos/159711/books-bookstore-book-reading-159711.jpeg''),
      ''createdAt'' \<mapsto> JStr (isoNow h)]"

definition createBook :: "host \<Rightarrow> obj \<Rightarrow> store \<Rightarrow> response \<times> store" where
  "createBook h body books =
     (if \<not> truthy (getProp body ''title'') \<or> \<not> truthy (getProp body ''author'')
         \<or> \<not> truthy (getProp body ''genre'') \<or> \<not> truthy (getProp body ''price'')
      then ((400, Message ''Title, author, genre, and price are required''), books)
      else ((201, MessageBook ''Book created successfully'' (newBook h body books)),
            books @ [newBook h body books]))"

subsection \<open>PUT /:id\<close>

text \<open>\<^verbatim>\<open>{ ...book, ...body, id: book.id }\<close>\<close>

definition mergeBook :: "obj \<Rightarrow> obj \<Rightarrow> obj" where
  "mergeBook book body = (book ++ body)(''id'' \<mapsto> getProp book ''id'')"

definition updateBook :: "string \<Rightarrow> obj \<Rightarrow> store \<Rightarrow> response \<times> store" where
  "updateBook idParam body books =
     (case findIndex (hasId idParam) books of
        None \<Rightarrow> ((404, Message ''Book not found''), books)
      | Some bookIndex \<Rightarrow>
          (let updatedBook = mergeBook (books ! bookIndex) body
           in ((200, MessageBook ''Book updated successfully'' updatedBook),
               books[bookIndex := updatedBook])))"

subsection \<open>DELETE /:id\<close>


section \<open>The filters as the specification words them\<close>

text \<open>
  The specification describes the list query by the predicate a returned book
  satisfies: every supplied filter holds of it. A filter is supplied when its parameter
  is a non-empty string. The free-text search is a case-insensitive substring match on
  the title, the author, the description or the genre; the author filter is a
  substring match on the author, case-insensitive as in the source; the genre filter
  is a case-insensitive exact match; the price bounds are inclusive; the year is
  matched exactly.
\<close>

definition textIncludes :: "obj \<Rightarrow> string \<Rightarrow> string \<Rightarrow> bool" where
  "textIncludes b k t =
     (case getProp b k of JStr s \<Rightarrow> includes_str (toLowerCase s) (toLowerCase t) | _ \<Rightarrow> False)"

definition textEquals :: "obj \<Rightarrow> string \<Rightarrow> string \<Rightarrow> bool" where
  "textEquals b k t =
     (case getProp b k of JStr s \<Rightarrow> toLowerCase s = toLowerCase t | _ \<Rightarrow> False)"

definition whenSupplied :: "string option \<Rightarrow> (string \<Rightarrow> bool) \<Rightarrow> bool" where
  "whenSupplied param holds = (case param of None \<Rightarrow> True | Some s \<Rightarrow> s = [] \<or> holds s)"

definition matchesFilters :: "host \<Rightarrow> query \<Rightarrow> obj \<Rightarrow> bool" where
  "matchesFilters h q b =
     (whenSupplied (search q) (\<lambda>s. textIncludes b ''title'' s \<or> textIncludes b ''author'' s
          \<or> textIncludes b ''description'' s \<or> textIncludes b ''genre'' s)
      \<and> whenSupplied (author q) (\<lambda>a. textIncludes b ''author'' a)
      \<and> whenSupplied (genre q) (\<lambda>g. textEquals b ''genre'' g)
      \<and> whenSupplied (minPrice q) (\<lambda>m. numGe (toNumber h (getProp b ''price'')) (parseFloat h m))
      \<and> whenSupplied (maxPrice q) (\<lambda>m. numLe (toNumber h (getProp b ''price'')) (parseFloat h m))
      \<and> whenSupplied (year q) (\<lambda>y. strictEqNum (getProp b ''publishedYear'') (parseInt y)))"

text \<open>A book whose four text fields are strings, as the data model has them.\<close>

definition textFields :: "obj \<Rightarrow> bool" where
  "textFields b =
     (list_all (\<lambda>k. case getProp b k of JStr s \<Rightarrow> True | _ \<Rightarrow> False)
        [''title'', ''author'', ''description'', ''genre''])"

section \<open>A host for the examples\<close>

text \<open>
  The examples below are evaluated with a host that computes the conversions on exact
  decimals, without the rounding to a double: \<^verbatim>\<open>parseFloat\<close> reads the longest decimal
  literal at the front of the string, the conversion of a whole string to a number
  accepts a decimal literal or a prefixed binary, octal or hexadecimal integer, and a
  number is printed in positional notation, as JavaScript prints the magnitudes from
  \<open>10\<^sup>-\<^sup>6\<close> up to \<open>10\<^sup>2\<^sup>1\<close>.
\<close>

definition tenTo :: "int \<Rightarrow> rat" where
  "tenTo e = (if 0 \<le> e then 10 ^ nat e else 1 / 10 ^ nat (- e))"

definition stripSign :: "string \<Rightarrow> string" where
  "stripSign s = (if startsWith s ''+'' \<or> startsWith s ''-'' then tl s else s)"

text \<open>The exponent part at the front of a string, and what follows it.\<close>

definition exponentPart :: "string \<Rightarrow> int \<times> string" where
  "exponentPart r =
     (let ds = takeWhile (isDigitOf 10) (stripSign (tl r))
      in if (startsWith r ''e'' \<or> startsWith r ''E'') \<and> ds \<noteq> []
         then ((if startsWith (tl r) ''-'' then - 1 else 1) * int (digitsValue 10 ds),
               dropWhile (isDigitOf 10) (stripSign (tl r)))
         else (0, r))"

text \<open>The longest signed decimal literal at the front of a string, and what follows it.\<close>

definition strDecimalLiteral :: "string \<Rightarrow> jsnum \<times> string" where
  "strDecimalLiteral s =
     (let negative = startsWith s ''-'';
          s1 = stripSign s;
          ip = takeWhile (isDigitOf 10) s1;
          r1 = dropWhile (isDigitOf 10) s1;
          dotted = startsWith r1 ''.'';
          fp = (if dotted then takeWhile (isDigitOf 10) (tl r1) else []);
          r2 = (if dotted then dropWhile (isDigitOf 10) (tl r1) else r1);
          ex = exponentPart r2
      in if startsWith s1 ''Infinity'' then (if negative then NegInf else PosInf, drop 8 s1)
         else if ip = [] \<and> fp = [] then (NaN, s)
         else (Fin ((if negative then - 1 else 1)
                 * (of_nat (digitsValue 10 (ip @ fp)) / 10 ^ length fp) * tenTo (fst ex)),
               snd ex))"

definition exactParseFloat :: "string \<Rightarrow> jsnum" where
  "exactParseFloat str = fst (strDecimalLiteral (dropWhile isWhiteSpace str))"

definition prefixedInteger :: "string \<Rightarrow> jsnum option" where
  "prefixedInteger s =
     (let radix = (if startsWith s ''0x'' \<or> startsWith s ''0X'' then 16
                   else if startsWith s ''0o'' \<or> startsWith s ''0O'' then 8
                   else if startsWith s ''0b'' \<or> startsWith s ''0B'' then 2 else 0)
      in if radix = 0 then None
         else if drop 2 s \<noteq> [] \<and> list_all (isDigitOf radix) (drop 2 s)
         then Some (Fin (of_nat (digitsValue radix (drop 2 s))))
         else Some NaN)"

definition exactStringToNumber :: "string \<Rightarrow> jsnum" where
  "exactStringToNumber str =
     (let s = rev (dropWhile isWhiteSpace (rev (dropWhile isWhiteSpace str)))
      in if s = [] then Fin 0
         else case prefixedInteger s of
                Some n \<Rightarrow> n
              | None \<Rightarrow> if snd (strDecimalLiteral s) = [] then fst (strDecimalLiteral s) else NaN)"

definition digitChar :: "nat \<Rightarrow> char" where
  "digitChar d = ''0123456789'' ! d"

fun natDigits :: "nat \<Rightarrow> string" where
  "natDigits n = (if n < 10 then [digitChar n] else natDigits (n div 10) @ [digitChar (n mod 10)])"

fun fractionDigits :: "nat \<Rightarrow> rat \<Rightarrow> string" where
  "fractionDigits 0 r = []"
| "fractionDigits (Suc k) r =
     (if r = 0 then []
      else digitChar (nat \<lfloor>r * 10\<rfloor>) # fractionDigits k (r * 10 - of_int \<lfloor>r * 10\<rfloor>))"

definition exactNumberToString :: "jsnum \<Rightarrow> string" where
  "exactNumberToString n =
     (case n of
        NaN \<Rightarrow> ''NaN''
      | PosInf \<Rightarrow> ''Infinity''
      | NegInf \<Rightarrow> ''-Infinity''
      | Fin q \<Rightarrow>
          (if q < 0 then ''-'' else [])
          @ natDigits (nat \<lfloor>\<bar>q\<bar>\<rfloor>)
          @ (if \<bar>q\<bar> = of_int \<lfloor>\<bar>q\<bar>\<rfloor> then []
             else ''.'' @ fractionDigits 20 (\<bar>q\<bar> - of_int \<lfloor>\<bar>q\<bar>\<rfloor>)))"

definition exampleHost :: host where
  "exampleHost =
     \<lparr>parseFloat = exactParseFloat,
      stringToNumber = exactStringToNumber,
      numberToString = exactNumberToString,
      currentYear = 2024,
      isoNow = ''2024-01-15T10:30:00.000Z''\<rparr>"

section \<open>Example data\<close>

text \<open>A collection of three books with the genres Fiction, Sci-Fi and Fiction.\<close>

definition gatsby :: obj where
  "gatsby =
     [''id'' \<mapsto> JNum (Fin 1), ''title'' \<mapsto> JStr ''The Great Gatsby'',
      ''author'' \<mapsto> JStr ''F. Scott Fitzgerald'', ''publishedYear'' \<mapsto> JNum (Fin 1925),
      ''genre'' \<mapsto> JStr ''Fiction'', ''price'' \<mapsto> JNum (Fin 12),
      ''description'' \<mapsto> JStr ''A novel of the Jazz Age'']"

definition dune :: obj where
  "dune =
     [''id'' \<mapsto> JNum (Fin 2), ''title'' \<mapsto> JStr ''Dune'',
      ''author'' \<mapsto> JStr ''Frank Herbert'', ''publishedYear'' \<mapsto> JNum (Fin 1965),
      ''genre'' \<mapsto> JStr ''Sci-Fi'', ''price'' \<mapsto> JNum (Fin 15),
      ''description'' \<mapsto> JStr ''A desert planet'']"

definition emma :: obj where
  "emma =
     [''id'' \<mapsto> JNum (Fin 3), ''title'' \<mapsto> JStr ''Emma'',
      ''author'' \<mapsto> JStr ''Jane Austen'', ''publishedYear'' \<mapsto> JNum (Fin 1815),
      ''genre'' \<mapsto> JStr ''Fiction'', ''price'' \<mapsto> JNum (Fin 9),
      ''description'' \<mapsto> JStr ''A comedy of manners'']"

definition seedBooks :: store where
  "seedBooks = [gatsby, dune, emma]"

text \<open>A book without a description, which the data model allows.\<close>

definition pamphlet :: obj where
  "pamphlet =
     [''id'' \<mapsto> JNum (Fin 1), ''title'' \<mapsto> JStr ''Notes'', ''author'' \<mapsto> JStr ''Anon'',
      ''publishedYear'' \<mapsto> JNum (Fin 2000), ''genre'' \<mapsto> JStr ''Essay'',
      ''price'' \<mapsto> JNum (Fin 5)]"

text \<open>A book without a genre.\<close>

definition leaflet :: obj where
  "leaflet = [''id'' \<mapsto> JNum (Fin 4), ''title'' \<mapsto> JStr ''Leaflet'', ''author'' \<mapsto> JStr ''Anon'']"

text \<open>The query with no parameter.\<close>

definition noQuery :: query where
  "noQuery = \<lparr>search = None, author = None, genre = None, minPrice = None,
              maxPrice = None, year = None, limit = None\<rparr>"

text \<open>A query with every parameter; of the three books only the first matches it.\<close>

definition gatsbyQuery :: query where
  "gatsbyQuery =
     \<lparr>search = Some ''the'', author = Some ''SCOTT'', genre = Some ''fiction'',
      minPrice = Some ''10'', maxPrice = Some ''12.50'', year = Some ''1925'',
      limit = Some ''5''\<rparr>"

text \<open>Request bodies for POST and PUT.\<close>

definition titleOnlyBody :: obj where
  "titleOnlyBody = [''title'' \<mapsto> JStr ''X'']"

definition fullBody :: "jsval \<Rightarrow> obj" where
  "fullBody price =
     [''title'' \<mapsto> JStr ''Persuasion'', ''author'' \<mapsto> JStr ''Jane Austen'',
      ''genre'' \<mapsto> JStr ''Fiction'', ''price'' \<mapsto> price]"

definition renumberBody :: obj where
  "renumberBody = [''id'' \<mapsto> JNum (Fin 99), ''price'' \<mapsto> JNum (Fin 20)]"

section \<open>Facts about the built-ins\<close>

lemma startsWith_iff: "startsWith s t \<longleftrightarrow> (\<exists>r. s = t @ r)"
  by (induction s t rule: startsWith.induct) auto

lemma includes_str_iff: "includes_str s t \<longleftrightarrow> (\<exists>p r. s = p @ t @ r)"
proof (induction s)
  case Nil
  then show ?case by simp
next
  case (Cons d s)
  have "(\<exists>p r. d # s = p @ t @ r) \<longleftrightarrow> (\<exists>r. d # s = t @ r) \<or> (\<exists>p r. s = p @ t @ r)"
  proof
    assume "\<exists>p r. d # s = p @ t @ r"
    then obtain p r where eq: "d # s = p @ t @ r" by blast
    show "(\<exists>r. d # s = t @ r) \<or> (\<exists>p r. s = p @ t @ r)"
    proof (cases p)
      case Nil
      then show ?thesis using eq by auto
    next
      case (Cons e p')
      then have "s = p' @ t @ r" using eq by simp
      then show ?thesis by blast
    qed
  next
    assume "(\<exists>r. d # s = t @ r) \<or> (\<exists>p r. s = p @ t @ r)"
    then show "\<exists>p r. d # s = p @ t @ r"
    proof
      assume "\<exists>r. d # s = t @ r"
      then obtain r where "d # s = [] @ t @ r" by auto
      then show ?thesis by blast
    next
      assume "\<exists>p r. s = p @ t @ r"
      then obtain p r where "d # s = (d # p) @ t @ r" by auto
      then show ?thesis by blast
    qed
  qed
  then show ?case using Cons.IH by (simp add: startsWith_iff)
qed

lemma filterE_total:
  "(\<And>x. x \<in> set xs \<Longrightarrow> p x \<noteq> None) \<Longrightarrow> filterE p xs \<noteq> None"
  by (induction xs) (auto split: option.splits)

lemma filterE_filter:
  "filterE p xs = Some ys \<Longrightarrow> (\<And>x v. x \<in> set xs \<Longrightarrow> p x = Some v \<Longrightarrow> v = P x)
     \<Longrightarrow> ys = filter P xs"
proof (induction xs arbitrary: ys)
  case Nil
  then show ?case by simp
next
  case (Cons x xs)
  from Cons.prems(1) obtain keep zs where px: "p x = Some keep" and zs: "filterE p xs = Some zs"
    and ys: "ys = (if keep then x # zs else zs)"
    by (auto split: option.splits)
  have "keep = P x" using Cons.prems(2) px by simp
  moreover have "zs = filter P xs" using Cons.IH[OF zs] Cons.prems(2) by simp
  ultimately show ?case using ys by simp
qed

lemma fieldIncludes_sound:
  "fieldIncludes b k (toLowerCase t) = Some v \<Longrightarrow> v = textIncludes b k t"
  by (cases "getProp b k") (auto simp: fieldIncludes_def textIncludes_def)

lemma searchFilter_sound:
  assumes "searchFilter s b = Some v"
  shows "v = (textIncludes b ''title'' s \<or> textIncludes b ''author'' s
          \<or> textIncludes b ''description'' s \<or> textIncludes b ''genre'' s)"
  using assms unfolding searchFilter_def Let_def
  by (auto simp: orE_def split: option.splits if_splits dest!: fieldIncludes_sound)

lemma authorFilter_sound: "authorFilter a b = Some v \<Longrightarrow> v = textIncludes b ''author'' a"
  by (simp add: authorFilter_def fieldIncludes_sound)

lemma genreFilter_sound: "genreFilter g b = Some v \<Longrightarrow> v = textEquals b ''genre'' g"
  by (cases "getProp b ''genre''") (auto simp: genreFilter_def textEquals_def)

lemma applyFilter_sound:
  assumes "applyFilter param p bs = Some ys"
    and "\<And>s b v. p s b = Some v \<Longrightarrow> v = P s b"
  shows "ys = filter (\<lambda>b. whenSupplied param (\<lambda>s. P s b)) bs"
proof (cases param)
  case None
  then show ?thesis using assms(1) by (simp add: applyFilter_def whenSupplied_def)
next
  case (Some s)
  show ?thesis
  proof (cases "s = []")
    case True
    then show ?thesis using assms(1) Some by (simp add: applyFilter_def whenSupplied_def)
  next
    case False
    then have "filterE (p s) bs = Some ys" using assms(1) Some by (simp add: applyFilter_def)
    then have "ys = filter (P s) bs" using assms(2) by (rule filterE_filter)
    then show ?thesis using Some False by (simp add: whenSupplied_def)
  qed
qed

lemma filteredBooks_sound:
  assumes "filteredBooks h q books = Some fb"
  shows "fb = filter (matchesFilters h q) books"
proof -
  from assms obtain f1 f2 f3 f4 f5 where
    s1: "applyFilter (search q) searchFilter books = Some f1" and
    s2: "applyFilter (author q) authorFilter f1 = Some f2" and
    s3: "applyFilter (genre q) genreFilter f2 = Some f3" and
    s4: "applyFilter (minPrice q) (minPriceFilter h) f3 = Some f4" and
    s5: "applyFilter (maxPrice q) (maxPriceFilter h) f4 = Some f5" and
    s6: "applyFilter (year q) yearFilter f5 = Some fb"
    unfolding filteredBooks_def by (auto simp: bind_eq_Some_conv)
  have e1: "f1 = filter (\<lambda>b. whenSupplied (search q)
        (\<lambda>s. textIncludes b ''title'' s \<or> textIncludes b ''author'' s
          \<or> textIncludes b ''description'' s \<or> textIncludes b ''genre'' s)) books"
    by (rule applyFilter_sound[OF s1]) (rule searchFilter_sound)
  have e2: "f2 = filter (\<lambda>b. whenSupplied (author q) (\<lambda>a. textIncludes b ''author'' a)) f1"
    by (rule applyFilter_sound[OF s2]) (rule authorFilter_sound)
  have e3: "f3 = filter (\<lambda>b. whenSupplied (genre q) (\<lambda>g. textEquals b ''genre'' g)) f2"
    by (rule applyFilter_sound[OF s3]) (rule genreFilter_sound)
  have e4: "f4 = filter (\<lambda>b. whenSupplied (minPrice q)
        (\<lambda>m. numGe (toNumber h (getProp b ''price'')) (parseFloat h m))) f3"
    by (rule applyFilter_sound[OF s4]) (simp add: minPriceFilter_def)
  have e5: "f5 = filter (\<lambda>b. whenSupplied (maxPrice q)
        (\<lambda>m. numLe (toNumber h (getProp b ''price'')) (parseFloat h m))) f4"
    by (rule applyFilter_sound[OF s5]) (simp add: maxPriceFilter_def)
  have e6: "fb = filter (\<lambda>b. whenSupplied (year q)
        (\<lambda>y. strictEqNum (getProp b ''publishedYear'') (parseInt y))) f5"
    by (rule applyFilter_sound[OF s6]) (simp add: yearFilter_def)
  show ?thesis
    unfolding e6 e5 e4 e3 e2 e1 filter_filter matchesFilters_def
    by (rule filter_cong) auto
qed


lemma filterE_subset: "filterE p xs = Some ys \<Longrightarrow> set ys \<subseteq> set xs"
  by (induction xs arbitrary: ys) (auto split: option.splits if_splits)

lemma applyFilter_total:
  assumes "\<And>s b. b \<in> set bs \<Longrightarrow> p s b \<noteq> None"
  shows "\<exists>ys. applyFilter param p bs = Some ys \<and> set ys \<subseteq> set bs"
proof (cases "applyFilter param p bs")
  case None
  then obtain s where "filterE (p s) bs = None"
    by (auto simp: applyFilter_def split: option.splits if_splits)
  moreover have "filterE (p s) bs \<noteq> None" using assms by (rule filterE_total)
  ultimately show ?thesis by simp
next
  case (Some ys)
  then have "set ys \<subseteq> set bs"
    by (auto simp: applyFilter_def split: option.splits if_splits dest: filterE_subset)
  then show ?thesis using Some by simp
qed

lemma textFields_strings:
  assumes "textFields b"
  shows "\<exists>t a d g. getProp b ''title'' = JStr t \<and> getProp b ''author'' = JStr a
           \<and> getProp b ''description'' = JStr d \<and> getProp b ''genre'' = JStr g"
  using assms by (auto simp: textFields_def split: jsval.splits)

lemma searchFilter_total: "textFields b \<Longrightarrow> searchFilter s b \<noteq> None"
  by (drule textFields_strings) (auto simp: searchFilter_def fieldIncludes_def orE_def Let_def)

lemma authorFilter_total: "textFields b \<Longrightarrow> authorFilter a b \<noteq> None"
  by (drule textFields_strings) (auto simp: authorFilter_def fieldIncludes_def)

lemma genreFilter_total: "textFields b \<Longrightarrow> genreFilter g b \<noteq> None"
  by (drule textFields_strings) (auto simp: genreFilter_def)

lemma filteredBooks_total:
  assumes "list_all textFields books"
  shows "filteredBooks h q books \<noteq> None"
proof -
  have tf: "\<And>b. b \<in> set books \<Longrightarrow> textFields b" using assms by (simp add: list_all_iff)
  obtain f1 where s1: "applyFilter (search q) searchFilter books = Some f1"
    and b1: "set f1 \<subseteq> set books"
    using applyFilter_total[of books searchFilter "search q"] tf searchFilter_total by blast
  obtain f2 where s2: "applyFilter (author q) authorFilter f1 = Some f2"
    and b2: "set f2 \<subseteq> set f1"
    using applyFilter_total[of f1 authorFilter "author q"] tf b1 authorFilter_total by blast
  obtain f3 where s3: "applyFilter (genre q) genreFilter f2 = Some f3"
    using applyFilter_total[of f2 genreFilter "genre q"] tf b1 b2 genreFilter_total by blast
  obtain f4 where s4: "applyFilter (minPrice q) (minPriceFilter h) f3 = Some f4"
    using applyFilter_total[of f3 "minPriceFilter h" "minPrice q"]
    by (auto simp: minPriceFilter_def)
  obtain f5 where s5: "applyFilter (maxPrice q) (maxPriceFilter h) f4 = Some f5"
    using applyFilter_total[of f4 "maxPriceFilter h" "maxPrice q"]
    by (auto simp: maxPriceFilter_def)
  obtain f6 where s6: "applyFilter (year q) yearFilter f5 = Some f6"
    using applyFilter_total[of f5 yearFilter "year q"]
    by (auto simp: yearFilter_def)
  show ?thesis by (simp add: filteredBooks_def s1 s2 s3 s4 s5 s6)
qed

lemma toInteger_of_nat: "toInteger (of_nat n) = int n"
  by (simp add: toInteger_def)

lemma slice0_nat: "slice0 xs (Fin (of_nat n)) = take n xs"
  by (simp add: toInteger_of_nat Let_def)

lemma take_length_take: "take (length (take m xs)) xs = take m xs"
  by (simp add: min_def)

lemma slice0_prefix: "slice0 xs e = take (length (slice0 xs e)) xs"
  by (cases e) (simp_all add: Let_def take_length_take del: length_take)

lemma getBooks_cases:
  "getBooks h q books =
     (case filteredBooks h q books of
        None \<Rightarrow> ((500, Failure ''Failed to fetch books''), books)
      | Some fb \<Rightarrow> ((200, BookList (slice0 fb (limitOf q)) (length fb)
                        (length (slice0 fb (limitOf q)))), books))"
  by (simp add: getBooks_def Let_def split: option.splits)

lemma getBooks_ok:
  assumes "fst (getBooks h q books) = (200, BookList bs tot shown)"
  shows "tot = length (filter (matchesFilters h q) books)
       \<and> bs = slice0 (filter (matchesFilters h q) books) (limitOf q)
       \<and> shown = length bs"
proof (cases "filteredBooks h q books")
  case None
  then show ?thesis using assms by (simp add: getBooks_cases)
next
  case (Some fb)
  then have "fb = filter (matchesFilters h q) books" by (rule filteredBooks_sound)
  then show ?thesis using assms Some by (auto simp: getBooks_cases)
qed


lemma find_findIndex:
  "find p xs = Some x \<Longrightarrow> \<exists>i. findIndex p xs = Some i \<and> i < length xs \<and> xs ! i = x"
proof (induction xs)
  case Nil
  then show ?case by simp
next
  case (Cons y ys)
  show ?case
  proof (cases "p y")
    case True
    then show ?thesis using Cons.prems by simp
  next
    case False
    then have "find p ys = Some x" using Cons.prems by simp
    then obtain i where "findIndex p ys = Some i" "i < length ys" "ys ! i = x"
      using Cons.IH by blast
    then show ?thesis using False by simp
  qed
qed


lemma mergeBook_id: "getProp (mergeBook book body) ''id'' = getProp book ''id''"
  by (simp add: mergeBook_def getProp_def)

lemma mergeBook_other:
  "k \<noteq> ''id'' \<Longrightarrow> mergeBook book body k = (case body k of None \<Rightarrow> book k | Some v \<Rightarrow> Some v)"
  by (simp add: mergeBook_def map_add_def)

lemma updateBook_found:
  assumes "find (hasId idParam) books = Some book"
  shows "\<exists>i. i < length books \<and> books ! i = book
           \<and> updateBook idParam body books
               = ((200, MessageBook ''Book updated successfully'' (mergeBook book body)),
                  books[i := mergeBook book body])"
proof -
  obtain i where "findIndex (hasId idParam) books = Some i" "i < length books" "books ! i = book"
    using find_findIndex[OF assms] by blast
  then show ?thesis by (auto simp: updateBook_def Let_def)
qed

lemma set_fold_add:
  "set (fold (\<lambda>x seen. if x \<in> set seen then seen else seen @ [x]) xs acc) = set acc \<union> set xs"
  by (induction xs arbitrary: acc) auto

lemma distinct_fold_add:
  "distinct acc \<Longrightarrow> distinct (fold (\<lambda>x seen. if x \<in> set seen then seen else seen @ [x]) xs acc)"
  by (induction xs arbitrary: acc) auto

lemma set_newSet: "set (newSet xs) = set xs"
  by (simp add: newSet_def set_fold_add)

lemma distinct_newSet: "distinct (newSet xs)"
  by (simp add: newSet_def distinct_fold_add)

lemma set_sortDefault: "set (sortDefault h xs) = set xs"
  by (auto simp: sortDefault_def)

lemma distinct_sortDefault: "distinct xs \<Longrightarrow> distinct (sortDefault h xs)"
  by (auto simp: sortDefault_def)

lemma defined_sortDefault:
  "filter (\<lambda>v. v \<noteq> JUndefined) (sortDefault h xs)
     = sort_key (toStr h) (filter (\<lambda>v. v \<noteq> JUndefined) xs)"
  by (simp add: sortDefault_def filter_sort)

lemma sorted_sortDefault:
  "sorted (map (toStr h) (filter (\<lambda>v. v \<noteq> JUndefined) (sortDefault h xs)))"
  by (simp only: defined_sortDefault sorted_sort_key)

lemma undefined_last_sortDefault:
  assumes "JUndefined \<in> set (sortDefault h xs)"
  shows "last (sortDefault h xs) = JUndefined"
proof -
  have "JUndefined \<in> set xs" using assms by (simp add: set_sortDefault)
  then have ne: "filter (\<lambda>v. v = JUndefined) xs \<noteq> []" by (auto simp: filter_empty_conv)
  then have "last (sortDefault h xs) = last (filter (\<lambda>v. v = JUndefined) xs)"
    by (simp add: sortDefault_def)
  moreover have "last (filter (\<lambda>v. v = JUndefined) xs) \<in> set (filter (\<lambda>v. v = JUndefined) xs)"
    using ne by (rule last_in_set)
  ultimately show ?thesis by simp
qed

lemma names_props:
  "set (sortDefault h (newSet (map f books))) = f ` set books"
  "distinct (sortDefault h (newSet (map f books)))"
  "sorted (map (toStr h)
     (filter (\<lambda>v. v \<noteq> JUndefined) (sortDefault h (newSet (map f books)))))"
  "JUndefined \<in> set (sortDefault h (newSet (map f books))) \<longrightarrow>
     last (sortDefault h (newSet (map f books))) = JUndefined"
  by (simp_all add: set_sortDefault set_newSet distinct_sortDefault distinct_newSet
      sorted_sortDefault undefined_last_sortDefault)

section \<open>Facts about the example data\<close>

lemmas parse_defs = parseInt_def isWhiteSpace_def isDigitOf_def digitValue_def digitsValue_def
  roundToDouble_def Let_def

lemma gatsby_props:
  "getProp gatsby ''id'' = JNum (Fin 1)" "getProp gatsby ''title'' = JStr ''The Great Gatsby''"
  "getProp gatsby ''author'' = JStr ''F. Scott Fitzgerald''"
  "getProp gatsby ''publishedYear'' = JNum (Fin 1925)" "getProp gatsby ''genre'' = JStr ''Fiction''"
  "getProp gatsby ''price'' = JNum (Fin 12)"
  "getProp gatsby ''description'' = JStr ''A novel of the Jazz Age''"
  by (simp_all add: getProp_def gatsby_def)

lemma dune_props:
  "getProp dune ''id'' = JNum (Fin 2)" "getProp dune ''title'' = JStr ''Dune''"
  "getProp dune ''author'' = JStr ''Frank Herbert''"
  "getProp dune ''publishedYear'' = JNum (Fin 1965)" "getProp dune ''genre'' = JStr ''Sci-Fi''"
  "getProp dune ''price'' = JNum (Fin 15)"
  "getProp dune ''description'' = JStr ''A desert planet''"
  by (simp_all add: getProp_def dune_def)

lemma emma_props:
  "getProp emma ''id'' = JNum (Fin 3)" "getProp emma ''title'' = JStr ''Emma''"
  "getProp emma ''author'' = JStr ''Jane Austen''"
  "getProp emma ''publishedYear'' = JNum (Fin 1815)" "getProp emma ''genre'' = JStr ''Fiction''"
  "getProp emma ''price'' = JNum (Fin 9)"
  "getProp emma ''description'' = JStr ''A comedy of manners''"
  by (simp_all add: getProp_def emma_def)

lemma seed_textFields: "list_all textFields seedBooks"
  by (simp add: seedBooks_def textFields_def gatsby_props dune_props emma_props)

lemma parseInt_examples:
  "parseInt ''abc'' = NaN" "parseInt ''-1'' = Fin (- 1)" "parseInt ''1'' = Fin 1"
  "parseInt ''2'' = Fin 2" "parseInt ''999'' = Fin 999"
  by (simp_all add: parse_defs)

text \<open>A no-break space in front of the digits is dropped, and a large integer is rounded.\<close>

lemma parseInt_no_break_space: "parseInt [CHR 0xA0, CHR ''2''] = Fin 2"
  by (simp add: parse_defs)

lemma parseInt_rounds:
  "parseInt ''9007199254740993'' = Fin 9007199254740992"
  "parseInt ''-9007199254740995'' = Fin (- 9007199254740996)"
  "parseInt ''99999999999999999999'' = Fin 100000000000000000000"
  by (simp_all add: parse_defs)

lemma toLowerCase_examples:
  "toLowerCase ''Sci-Fi'' = ''sci-fi''" "toLowerCase [CHR 0xC9] = [CHR 0xE9]"
  "toLowerCase [CHR 0xD7, CHR 0xDF, CHR 0xFF] = [CHR 0xD7, CHR 0xDF, CHR 0xFF]"
  by (simp_all add: toLowerCase_def lowerChar_def upperCaseLetters_def lowerCaseLetters_def)

lemmas search_defs = searchFilter_def authorFilter_def genreFilter_def fieldIncludes_def orE_def
  toLowerCase_def lowerChar_def upperCaseLetters_def lowerCaseLetters_def


lemma fullBody_props:
  "getProp (fullBody p) ''title'' = JStr ''Persuasion''"
  "getProp (fullBody p) ''author'' = JStr ''Jane Austen''"
  "getProp (fullBody p) ''genre'' = JStr ''Fiction''"
  "getProp (fullBody p) ''price'' = p"
  by (simp_all add: fullBody_def getProp_def)

lemma exactParseFloat_zero: "exactParseFloat ''0'' = Fin 0"
  by (simp add: exactParseFloat_def strDecimalLiteral_def stripSign_def exponentPart_def
      tenTo_def parse_defs)

lemma gatsbyQuery_result:
  "fst (getBooks exampleHost gatsbyQuery seedBooks) = (200, BookList [gatsby] 1 1)"
  by (simp add: gatsbyQuery_def getBooks_def filteredBooks_def applyFilter_def limitOf_def
      seedBooks_def toInteger_def gatsby_props dune_props emma_props searchFilter_def
      authorFilter_def genreFilter_def fieldIncludes_def orE_def toLowerCase_def lowerChar_def
      upperCaseLetters_def lowerCaseLetters_def
      minPriceFilter_def maxPriceFilter_def yearFilter_def numGe_def exampleHost_def
      exactParseFloat_def strDecimalLiteral_def stripSign_def exponentPart_def tenTo_def
      parseInt_def isWhiteSpace_def isDigitOf_def digitValue_def digitsValue_def
      roundToDouble_def Let_def)

lemma find_dune: "find (hasId ''2'') seedBooks = Some dune"
  by (simp add: seedBooks_def hasId_def gatsby_props dune_props parseInt_examples)

lemmas float_defs = exampleHost_def exactParseFloat_def strDecimalLiteral_def stripSign_def
  exponentPart_def tenTo_def exactNumberToString_def digitChar_def

lemmas getBooks_defs = getBooks_def filteredBooks_def applyFilter_def noQuery_def limitOf_def
  seedBooks_def toInteger_def

section \<open>GET /: filtering and the limit\<close>

text \<open>
  C1 (amended). The list query answers 200 whenever every stored book has strings
  for its title, author, description and genre. Whenever it answers 200, \<open>total\<close> is
  the number of books that satisfy every supplied filter, the returned books are the
  first \<open>showing\<close> of them, each satisfies every supplied filter, and \<open>showing\<close> is the
  minimum of \<open>total\<close> and the limit when the limit (22 when absent) parses to a
  non-negative integer.
\<close>

theorem getBooks_total_showing:
  "(list_all textFields books \<longrightarrow>
      (\<exists>bs tot shown. fst (getBooks h q books) = (200, BookList bs tot shown)))
   \<and> (\<forall>bs tot shown. fst (getBooks h q books) = (200, BookList bs tot shown) \<longrightarrow>
        tot = length (filter (matchesFilters h q) books)
      \<and> bs = take shown (filter (matchesFilters h q) books)
      \<and> list_all (matchesFilters h q) bs
      \<and> (\<forall>n. limitOf q = Fin (of_nat n) \<longrightarrow> shown = min tot n))"
proof (intro conjI impI allI)
  assume "list_all textFields books"
  then obtain fb where "filteredBooks h q books = Some fb"
    using filteredBooks_total by blast
  then show "\<exists>bs tot shown. fst (getBooks h q books) = (200, BookList bs tot shown)"
    by (simp add: getBooks_cases)
next
  fix bs tot shown
  assume ok: "fst (getBooks h q books) = (200, BookList bs tot shown)"
  note r = getBooks_ok[OF ok]
  show "tot = length (filter (matchesFilters h q) books)" using r by simp
  show "bs = take shown (filter (matchesFilters h q) books)"
    using r slice0_prefix[of "filter (matchesFilters h q) books" "limitOf q"] by simp
  then have "set bs \<subseteq> set (filter (matchesFilters h q) books)"
    by (metis set_take_subset)
  then show "list_all (matchesFilters h q) bs" by (auto simp: list_all_iff)
  fix n
  assume "limitOf q = Fin (of_nat n)"
  then show "shown = min tot n" using r by (simp add: slice0_nat del: slice0.simps)
qed

text \<open>
  The search for \<^verbatim>\<open>FICTION\<close> with limit 1 on the example collection: two books match,
  one is shown. And the query with every parameter: one book matches and is shown.
\<close>

theorem getBooks_total_showing_witness:
  "list_all textFields seedBooks
   \<and> fst (getBooks exampleHost (noQuery\<lparr>search := Some ''FICTION'', limit := Some ''1''\<rparr>)
        seedBooks) = (200, BookList [gatsby] 2 1)
   \<and> length (filter (matchesFilters exampleHost
        (noQuery\<lparr>search := Some ''FICTION'', limit := Some ''1''\<rparr>)) seedBooks) = 2
   \<and> list_all (matchesFilters exampleHost
        (noQuery\<lparr>search := Some ''FICTION'', limit := Some ''1''\<rparr>)) [gatsby]
   \<and> limitOf (noQuery\<lparr>search := Some ''FICTION'', limit := Some ''1''\<rparr>) = Fin 1
   \<and> min 2 1 = (1::nat)
   \<and> fst (getBooks exampleHost gatsbyQuery seedBooks) = (200, BookList [gatsby] 1 1)
   \<and> length (filter (matchesFilters exampleHost gatsbyQuery) seedBooks) = 1
   \<and> matchesFilters exampleHost gatsbyQuery gatsby"
proof -
  let ?q = "noQuery\<lparr>search := Some ''FICTION'', limit := Some ''1''\<rparr>"
  have ev: "fst (getBooks exampleHost ?q seedBooks) = (200, BookList [gatsby] 2 1)"
    by (simp add: getBooks_defs gatsby_props dune_props emma_props parseInt_examples search_defs)
  have lim: "limitOf ?q = Fin (of_nat 1)"
    by (simp add: limitOf_def noQuery_def parseInt_examples)
  have "\<forall>bs tot shown. fst (getBooks exampleHost ?q seedBooks) = (200, BookList bs tot shown) \<longrightarrow>
        tot = length (filter (matchesFilters exampleHost ?q) seedBooks)
      \<and> bs = take shown (filter (matchesFilters exampleHost ?q) seedBooks)
      \<and> list_all (matchesFilters exampleHost ?q) bs
      \<and> (\<forall>n. limitOf ?q = Fin (of_nat n) \<longrightarrow> shown = min tot n)"
    using getBooks_total_showing[of seedBooks exampleHost ?q] by blast
  then have first: "2 = length (filter (matchesFilters exampleHost ?q) seedBooks)
      \<and> list_all (matchesFilters exampleHost ?q) [gatsby]
      \<and> (1::nat) = min 2 1"
    using ev lim by blast
  have "\<forall>bs tot shown.
        fst (getBooks exampleHost gatsbyQuery seedBooks) = (200, BookList bs tot shown) \<longrightarrow>
        tot = length (filter (matchesFilters exampleHost gatsbyQuery) seedBooks)
      \<and> bs = take shown (filter (matchesFilters exampleHost gatsbyQuery) seedBooks)
      \<and> list_all (matchesFilters exampleHost gatsbyQuery) bs
      \<and> (\<forall>n. limitOf gatsbyQuery = Fin (of_nat n) \<longrightarrow> shown = min tot n)"
    using getBooks_total_showing[of seedBooks exampleHost gatsbyQuery] by blast
  then have second: "1 = length (filter (matchesFilters exampleHost gatsbyQuery) seedBooks)
      \<and> list_all (matchesFilters exampleHost gatsbyQuery) [gatsby]"
    using gatsbyQuery_result by blast
  show ?thesis using ev lim seed_textFields first second gatsbyQuery_result by simp
qed

text \<open>
  With limit \<^verbatim>\<open>-1\<close> the slice drops the last of the three books: \<open>showing\<close> is 2, not
  the minimum of 3 and -1. And a search over a book with no description throws inside
  the filter: the answer is 500 and has no \<open>showing\<close> at all.
\<close>

theorem getBooks_total_showing_counterexample:
  "fst (getBooks exampleHost (noQuery\<lparr>limit := Some ''-1''\<rparr>) seedBooks)
     = (200, BookList [gatsby, dune] 3 2)
   \<and> limitOf (noQuery\<lparr>limit := Some ''-1''\<rparr>) = Fin (- 1)
   \<and> int 2 \<noteq> min (int 3) (- 1)
   \<and> fst (getBooks exampleHost (noQuery\<lparr>search := Some ''zzz''\<rparr>) [pamphlet])
     = (500, Failure ''Failed to fetch books'')"
  by (simp add: getBooks_defs parseInt_examples ceiling_minus getProp_def pamphlet_def
      search_defs)

text \<open>
  C10. When the limit is a string that \<^verbatim>\<open>parseInt\<close> reads as NaN, such as \<^verbatim>\<open>abc\<close>, the
  list query returns no book and \<open>showing\<close> 0, while \<open>total\<close> is the number of all
  matching books.
\<close>

theorem getBooks_limit_not_a_number:
  assumes "limit q = Some l" and "parseInt l = NaN" and "list_all textFields books"
  shows "fst (getBooks h q books)
           = (200, BookList [] (length (filter (matchesFilters h q) books)) 0)"
proof -
  obtain fb where fb: "filteredBooks h q books = Some fb"
    using filteredBooks_total[OF assms(3)] by blast
  then have "fb = filter (matchesFilters h q) books" by (rule filteredBooks_sound)
  moreover have "limitOf q = NaN" using assms(1,2) by (simp add: limitOf_def)
  ultimately show ?thesis using fb by (simp add: getBooks_cases)
qed

theorem getBooks_limit_not_a_number_witness:
  "parseInt ''abc'' = NaN \<and> list_all textFields seedBooks
   \<and> fst (getBooks exampleHost (noQuery\<lparr>limit := Some ''abc''\<rparr>) seedBooks)
       = (200, BookList [] 3 0)"
proof -
  let ?q = "noQuery\<lparr>limit := Some ''abc''\<rparr>"
  have nan: "parseInt ''abc'' = NaN" by (simp add: parseInt_examples)
  have "length (filter (matchesFilters exampleHost ?q) seedBooks) = 3"
    by (simp add: matchesFilters_def whenSupplied_def noQuery_def seedBooks_def)
  then show ?thesis
    using getBooks_limit_not_a_number[of ?q "''abc''" seedBooks exampleHost, OF _ nan seed_textFields]
      nan seed_textFields
    by (simp add: noQuery_def)
qed

section \<open>The read handlers leave the collection alone\<close>

text \<open>
  C8. Each of the four read handlers returns the collection as it was, whatever the
  query parameters and also when the list query fails.
\<close>

theorem read_handlers_keep_store:
  "snd (getBooks h q books) = books \<and> snd (getBook idParam books) = books
   \<and> snd (getGenres h books) = books \<and> snd (getAuthors h books) = books"
  by (simp add: getBooks_cases getBook_def getGenres_def getAuthors_def split: option.splits)

theorem read_handlers_keep_store_witness:
  "snd (getBooks exampleHost (noQuery\<lparr>search := Some ''zzz''\<rparr>) [pamphlet]) = [pamphlet]
   \<and> snd (getBook ''1'' [pamphlet]) = [pamphlet]
   \<and> snd (getGenres exampleHost [pamphlet]) = [pamphlet]
   \<and> snd (getAuthors exampleHost [pamphlet]) = [pamphlet]"
  by (rule read_handlers_keep_store)

section \<open>The metadata queries\<close>

text \<open>
  C7. The genres query and the authors query answer 200 with exactly the genre
  (author) values of the stored books, each once, in ascending order of their strings
  (an undefined value, of a book without the property, comes last). For a collection
  whose genres are Fiction, Sci-Fi, Fiction the genres query returns Fiction, Sci-Fi.
\<close>

theorem metadata_sorted_distinct:
  "(\<exists>gs. fst (getGenres h books) = (200, Names gs)
      \<and> set gs = (\<lambda>book. getProp book ''genre'') ` set books
      \<and> distinct gs
      \<and> sorted (map (toStr h) (filter (\<lambda>v. v \<noteq> JUndefined) gs))
      \<and> (JUndefined \<in> set gs \<longrightarrow> last gs = JUndefined))
   \<and> (\<exists>us. fst (getAuthors h books) = (200, Names us)
      \<and> set us = (\<lambda>book. getProp book ''author'') ` set books
      \<and> distinct us
      \<and> sorted (map (toStr h) (filter (\<lambda>v. v \<noteq> JUndefined) us))
      \<and> (JUndefined \<in> set us \<longrightarrow> last us = JUndefined))
   \<and> (map (\<lambda>book. getProp book ''genre'') books
         = [JStr ''Fiction'', JStr ''Sci-Fi'', JStr ''Fiction''] \<longrightarrow>
       fst (getGenres h books) = (200, Names [JStr ''Fiction'', JStr ''Sci-Fi'']))"
proof (intro conjI impI)
  have "fst (getGenres h books)
          = (200, Names (sortDefault h (newSet (map (\<lambda>book. getProp book ''genre'') books))))"
    by (simp add: getGenres_def)
  then show "\<exists>gs. fst (getGenres h books) = (200, Names gs)
      \<and> set gs = (\<lambda>book. getProp book ''genre'') ` set books
      \<and> distinct gs
      \<and> sorted (map (toStr h) (filter (\<lambda>v. v \<noteq> JUndefined) gs))
      \<and> (JUndefined \<in> set gs \<longrightarrow> last gs = JUndefined)"
    using names_props[of h "\<lambda>book. getProp book ''genre''" books] by blast
next
  have "fst (getAuthors h books)
          = (200, Names (sortDefault h (newSet (map (\<lambda>book. getProp book ''author'') books))))"
    by (simp add: getAuthors_def)
  then show "\<exists>us. fst (getAuthors h books) = (200, Names us)
      \<and> set us = (\<lambda>book. getProp book ''author'') ` set books
      \<and> distinct us
      \<and> sorted (map (toStr h) (filter (\<lambda>v. v \<noteq> JUndefined) us))
      \<and> (JUndefined \<in> set us \<longrightarrow> last us = JUndefined)"
    using names_props[of h "\<lambda>book. getProp book ''author''" books] by blast
next
  assume "map (\<lambda>book. getProp book ''genre'') books
            = [JStr ''Fiction'', JStr ''Sci-Fi'', JStr ''Fiction'']"
  then show "fst (getGenres h books) = (200, Names [JStr ''Fiction'', JStr ''Sci-Fi''])"
    by (simp add: getGenres_def newSet_def sortDefault_def)
qed

text \<open>
  The example collection, and a collection in which one book has no genre: its
  undefined genre is listed last.
\<close>

theorem metadata_sorted_distinct_witness:
  "map (\<lambda>book. getProp book ''genre'') seedBooks
     = [JStr ''Fiction'', JStr ''Sci-Fi'', JStr ''Fiction'']
   \<and> fst (getGenres exampleHost seedBooks) = (200, Names [JStr ''Fiction'', JStr ''Sci-Fi''])
   \<and> fst (getAuthors exampleHost seedBooks)
       = (200, Names [JStr ''F. Scott Fitzgerald'', JStr ''Frank Herbert'', JStr ''Jane Austen''])
   \<and> fst (getGenres exampleHost [dune, leaflet, gatsby])
       = (200, Names [JStr ''Fiction'', JStr ''Sci-Fi'', JUndefined])
   \<and> last [JStr ''Fiction'', JStr ''Sci-Fi'', JUndefined] = JUndefined"
proof -
  have g: "map (\<lambda>book. getProp book ''genre'') seedBooks
             = [JStr ''Fiction'', JStr ''Sci-Fi'', JStr ''Fiction'']"
    by (simp add: seedBooks_def gatsby_props dune_props emma_props)
  have a: "fst (getAuthors exampleHost seedBooks)
       = (200, Names [JStr ''F. Scott Fitzgerald'', JStr ''Frank Herbert'', JStr ''Jane Austen''])"
    by (simp add: getAuthors_def newSet_def sortDefault_def seedBooks_def
        gatsby_props dune_props emma_props)
  have u: "fst (getGenres exampleHost [dune, leaflet, gatsby])
       = (200, Names [JStr ''Fiction'', JStr ''Sci-Fi'', JUndefined])"
    by (simp add: getGenres_def newSet_def sortDefault_def gatsby_props dune_props)
       (simp add: getProp_def leaflet_def)
  have "\<exists>gs. fst (getGenres exampleHost [dune, leaflet, gatsby]) = (200, Names gs)
      \<and> (JUndefined \<in> set gs \<longrightarrow> last gs = JUndefined)"
    using metadata_sorted_distinct[of exampleHost "[dune, leaflet, gatsby]"] by blast
  then have l: "last [JStr ''Fiction'', JStr ''Sci-Fi'', JUndefined] = JUndefined"
    using u by auto
  show ?thesis using metadata_sorted_distinct[of exampleHost seedBooks] g a u l by blast
qed

section \<open>An identifier that no book has\<close>



section \<open>POST /: validation and the new record\<close>

text \<open>
  C2. A create request whose body lacks the title, the author, the genre or the price
  is answered 400 and the collection is returned as it was.
\<close>

theorem createBook_missing_field:
  assumes "body ''title'' = None \<or> body ''author'' = None \<or> body ''genre'' = None
           \<or> body ''price'' = None"
  shows "createBook h body books
           = ((400, Message ''Title, author, genre, and price are required''), books)"
  using assms by (auto simp: createBook_def getProp_def)

theorem createBook_missing_field_witness:
  "titleOnlyBody ''author'' = None
   \<and> createBook exampleHost titleOnlyBody seedBooks
       = ((400, Message ''Title, author, genre, and price are required''), seedBooks)
   \<and> length (snd (createBook exampleHost titleOnlyBody seedBooks)) = length seedBooks"
proof -
  have missing: "titleOnlyBody ''author'' = None" by (simp add: titleOnlyBody_def)
  then have "createBook exampleHost titleOnlyBody seedBooks
       = ((400, Message ''Title, author, genre, and price are required''), seedBooks)"
    using createBook_missing_field[of titleOnlyBody exampleHost seedBooks] by blast
  then show ?thesis using missing by simp
qed

text \<open>
  What the handler does with a request that passes its check: it answers 201 with the
  new record, appends the record after the books already stored, and gives it the
  number of stored books plus one as identifier.
\<close>

lemma createBook_accepted:
  assumes "truthy (getProp body ''title'')" and "truthy (getProp body ''author'')"
    and "truthy (getProp body ''genre'')" and "truthy (getProp body ''price'')"
  shows "createBook h body books
           = ((201, MessageBook ''Book created successfully'' (newBook h body books)),
              books @ [newBook h body books])
       \<and> getProp (newBook h body books) ''id'' = JNum (Fin (of_nat (length books) + 1))"
  using assms by (simp add: createBook_def newBook_def getProp_def)

text \<open>A body with the four fields and price 12, on the collection of three books.\<close>

lemma createBook_accepted_example:
  "fst (fst (createBook exampleHost (fullBody (JNum (Fin 12))) seedBooks)) = 201
   \<and> butlast (snd (createBook exampleHost (fullBody (JNum (Fin 12))) seedBooks)) = seedBooks
   \<and> getProp (last (snd (createBook exampleHost (fullBody (JNum (Fin 12))) seedBooks))) ''id''
       = JNum (Fin 4)
   \<and> getProp (last (snd (createBook exampleHost (fullBody (JNum (Fin 12))) seedBooks))) ''price''
       = JNum (Fin 12)"
proof -
  let ?body = "fullBody (JNum (Fin 12))"
  have t: "truthy (getProp ?body ''title'')" "truthy (getProp ?body ''author'')"
    "truthy (getProp ?body ''genre'')" "truthy (getProp ?body ''price'')"
    by (simp_all add: fullBody_props)
  have n: "JNum (Fin (of_nat (length seedBooks) + 1)) = JNum (Fin 4)"
    by (simp add: seedBooks_def)
  have p: "getProp (newBook exampleHost ?body seedBooks) ''price'' = JNum (Fin 12)"
    by (simp add: newBook_def getProp_def fullBody_def float_defs parse_defs)
  show ?thesis
    using createBook_accepted[OF t, of exampleHost seedBooks] n p by simp
qed

text \<open>
  C3. A create request with all required fields present is to be answered 201, with
  the new record, of identifier the number of stored books plus one, appended. At the
  body whose four fields are all present and whose price is the number 0 the handler
  does not do so: the check \<^verbatim>\<open>!price\<close> takes the 0 for a missing price, the answer is 400
  and nothing is appended. The same body with the price as the string \<^verbatim>\<open>0\<close> is
  answered 201.
\<close>

theorem createBook_zero_price_rejected:
  "fullBody (JNum (Fin 0)) ''title'' \<noteq> None \<and> fullBody (JNum (Fin 0)) ''author'' \<noteq> None
   \<and> fullBody (JNum (Fin 0)) ''genre'' \<noteq> None
   \<and> fullBody (JNum (Fin 0)) ''price'' = Some (JNum (Fin 0))
   \<and> createBook exampleHost (fullBody (JNum (Fin 0))) seedBooks
       = ((400, Message ''Title, author, genre, and price are required''), seedBooks)
   \<and> fst (fst (createBook exampleHost (fullBody (JStr ''0'')) seedBooks)) = 201"
  by (simp add: createBook_def fullBody_def getProp_def)

theorem createBook_zero_price_rejected_witness:
  "fst (fst (createBook exampleHost (fullBody (JNum (Fin 0))) seedBooks)) = 400
   \<and> length (snd (createBook exampleHost (fullBody (JNum (Fin 0))) seedBooks)) = 3"
  using createBook_zero_price_rejected by (simp add: seedBooks_def)

text \<open>
  C9 (amended). A create request whose price is the number 0 is answered 400 and
  changes nothing. The string \<^verbatim>\<open>0\<close> is not falsy: with a truthy title, author and genre
  the request is answered 201 and the record, with the price that \<^verbatim>\<open>parseFloat\<close> reads
  from the string, is appended.
\<close>

theorem createBook_falsy_price:
  "(getProp body ''price'' = JNum (Fin 0) \<longrightarrow>
      createBook h body books
        = ((400, Message ''Title, author, genre, and price are required''), books))
   \<and> (truthy (getProp body ''title'') \<and> truthy (getProp body ''author'')
        \<and> truthy (getProp body ''genre'') \<and> getProp body ''price'' = JStr ''0'' \<longrightarrow>
      createBook h body books
        = ((201, MessageBook ''Book created successfully'' (newBook h body books)),
           books @ [newBook h body books])
      \<and> getProp (newBook h body books) ''price'' = JNum (parseFloat h ''0''))"
  by (simp add: createBook_def newBook_def getProp_def)

theorem createBook_falsy_price_witness:
  "createBook exampleHost (fullBody (JNum (Fin 0))) seedBooks
     = ((400, Message ''Title, author, genre, and price are required''), seedBooks)
   \<and> fst (fst (createBook exampleHost (fullBody (JStr ''0'')) seedBooks)) = 201
   \<and> getProp (newBook exampleHost (fullBody (JStr ''0'')) seedBooks) ''price''
       = JNum (parseFloat exampleHost ''0'')"
  using createBook_falsy_price[of "fullBody (JNum (Fin 0))" exampleHost seedBooks]
    createBook_falsy_price[of "fullBody (JStr ''0'')" exampleHost seedBooks]
  by (simp add: fullBody_props)

text \<open>The price \<^verbatim>\<open>"0"\<close> is accepted: the answer is 201 and a book of price 0 is appended.\<close>

theorem createBook_falsy_price_counterexample:
  "getProp (fullBody (JStr ''0'')) ''price'' = JStr ''0''
   \<and> fst (createBook exampleHost (fullBody (JStr ''0'')) seedBooks)
       = (201, MessageBook ''Book created successfully''
            (newBook exampleHost (fullBody (JStr ''0'')) seedBooks))
   \<and> snd (createBook exampleHost (fullBody (JStr ''0'')) seedBooks)
       = seedBooks @ [newBook exampleHost (fullBody (JStr ''0'')) seedBooks]
   \<and> getProp (newBook exampleHost (fullBody (JStr ''0'')) seedBooks) ''price'' = JNum (Fin 0)"
  by (simp add: createBook_def fullBody_props)
     (simp add: newBook_def getProp_def fullBody_def exampleHost_def exactParseFloat_zero)

section \<open>PUT /:id: the merge\<close>

text \<open>
  C5. An update of a book that exists answers 200 with a record that is stored in the
  collection and whose identifier is the one the book had, whatever the body holds.
\<close>

theorem updateBook_keeps_id:
  assumes "find (hasId idParam) books = Some book"
  shows "\<exists>updated. fst (updateBook idParam body books)
                     = (200, MessageBook ''Book updated successfully'' updated)
           \<and> updated \<in> set (snd (updateBook idParam body books))
           \<and> getProp updated ''id'' = getProp book ''id''"
proof -
  obtain i where "i < length books"
    and "updateBook idParam body books
          = ((200, MessageBook ''Book updated successfully'' (mergeBook book body)),
             books[i := mergeBook book body])"
    using updateBook_found[OF assms] by blast
  then show ?thesis by (auto simp: mergeBook_id set_update_memI)
qed

theorem updateBook_keeps_id_witness:
  "find (hasId ''2'') seedBooks = Some dune
   \<and> getProp renumberBody ''id'' = JNum (Fin 99)
   \<and> (\<exists>updated. fst (updateBook ''2'' renumberBody seedBooks)
                    = (200, MessageBook ''Book updated successfully'' updated)
          \<and> getProp updated ''id'' = JNum (Fin 2))"
proof -
  have supplied: "getProp renumberBody ''id'' = JNum (Fin 99)"
    by (simp add: renumberBody_def getProp_def)
  show ?thesis
    using updateBook_keeps_id[OF find_dune, of renumberBody] find_dune supplied
    by (auto simp: dune_props)
qed

text \<open>
  C6 (amended). An update of a book that exists stores the merged record in the
  book's place and returns it: every property of the body other than the identifier
  has the body's value, every property absent from the body keeps the book's value,
  the identifier keeps the book's value, and every other book stays as it was.
\<close>

theorem updateBook_shallow_merge:
  assumes "find (hasId idParam) books = Some book"
  shows "\<exists>i updated. i < length books \<and> books ! i = book
           \<and> updateBook idParam body books
               = ((200, MessageBook ''Book updated successfully'' updated), books[i := updated])
           \<and> (\<forall>k. k \<noteq> ''id'' \<longrightarrow> updated k = (case body k of None \<Rightarrow> book k | Some v \<Rightarrow> Some v))
           \<and> getProp updated ''id'' = getProp book ''id''
           \<and> (\<forall>j. j \<noteq> i \<longrightarrow> books[i := updated] ! j = books ! j)
           \<and> length (books[i := updated]) = length books"
proof -
  obtain i where i: "i < length books" "books ! i = book"
    and u: "updateBook idParam body books
          = ((200, MessageBook ''Book updated successfully'' (mergeBook book body)),
             books[i := mergeBook book body])"
    using updateBook_found[OF assms] by blast
  show ?thesis
    by (rule exI[of _ i], rule exI[of _ "mergeBook book body"])
       (simp add: i u mergeBook_id mergeBook_other)
qed


theorem updateBook_shallow_merge_witness:
  "find (hasId ''2'') seedBooks = Some dune
   \<and> (\<exists>i updated. i < length seedBooks \<and> seedBooks ! i = dune
          \<and> updateBook ''2'' renumberBody seedBooks
              = ((200, MessageBook ''Book updated successfully'' updated),
                 seedBooks[i := updated])
          \<and> updated ''price'' = Some (JNum (Fin 20))
          \<and> updated ''title'' = Some (JStr ''Dune'')
          \<and> getProp updated ''id'' = JNum (Fin 2))"
proof -
  obtain i updated where r: "i < length seedBooks" "seedBooks ! i = dune"
      "updateBook ''2'' renumberBody seedBooks
         = ((200, MessageBook ''Book updated successfully'' updated), seedBooks[i := updated])"
      "\<forall>k. k \<noteq> ''id'' \<longrightarrow>
         updated k = (case renumberBody k of None \<Rightarrow> dune k | Some v \<Rightarrow> Some v)"
      "getProp updated ''id'' = getProp dune ''id''"
    using updateBook_shallow_merge[OF find_dune, of renumberBody] by blast
  have "updated ''price'' = Some (JNum (Fin 20))" "updated ''title'' = Some (JStr ''Dune'')"
    using r(4) by (simp_all add: renumberBody_def dune_def)
  then show ?thesis using r find_dune by (auto simp: dune_props)
qed

text \<open>
  The body supplies the identifier 99 for book 2; the merged record keeps the
  identifier 2.
\<close>

theorem updateBook_shallow_merge_counterexample:
  "getProp renumberBody ''id'' = JNum (Fin 99)
   \<and> fst (updateBook ''2'' renumberBody seedBooks)
       = (200, MessageBook ''Book updated successfully'' (mergeBook dune renumberBody))
   \<and> getProp (mergeBook dune renumberBody) ''id'' = JNum (Fin 2)"
  by (simp add: updateBook_def seedBooks_def hasId_def gatsby_props dune_props parseInt_examples
      mergeBook_id Let_def)
     (simp add: renumberBody_def getProp_def)

end
